theory Spec2Isabelle
  imports Complex_Main
begin

section \<open>JavaScript numbers\<close>

text \<open>
  The scoring function of \<^verbatim>\<open>live-water-monitor.js\<close> computes on JavaScript numbers.
  A number is modelled as a real or one of the three special values that IEEE arithmetic
  produces where real arithmetic is undefined: the two infinities and NaN. Finite values
  are exact reals: rounding and overflow of doubles are not part of the model, and the
  real \<open>0\<close> stands for the positive zero.
\<close>

datatype jsnum = Fin real | PosInf | NegInf | NaN

text \<open>The sign of a number that is not NaN, and the infinity of a given sign.\<close>

fun js_sign :: "jsnum \<Rightarrow> real" where
  "js_sign (Fin a) = sgn a"
| "js_sign PosInf = 1"
| "js_sign NegInf = - 1"
| "js_sign NaN = 0"

definition signed_inf :: "real \<Rightarrow> jsnum" where
  "signed_inf s = (if 0 < s then PosInf else if s < 0 then NegInf else NaN)"

fun js_neg :: "jsnum \<Rightarrow> jsnum" where
  "js_neg (Fin a) = Fin (- a)"
| "js_neg PosInf = NegInf"
| "js_neg NegInf = PosInf"
| "js_neg NaN = NaN"

text \<open>\<^verbatim>\<open>x + y\<close>: opposite infinities give NaN.\<close>

fun js_add :: "jsnum \<Rightarrow> jsnum \<Rightarrow> jsnum" where
  "js_add (Fin a) (Fin b) = Fin (a + b)"
| "js_add NaN y = NaN"
| "js_add x NaN = NaN"
| "js_add PosInf NegInf = NaN"
| "js_add NegInf PosInf = NaN"
| "js_add PosInf y = PosInf"
| "js_add NegInf y = NegInf"
| "js_add (Fin a) y = y"

definition js_sub :: "jsnum \<Rightarrow> jsnum \<Rightarrow> jsnum" where
  "js_sub x y = js_add x (js_neg y)"

text \<open>\<^verbatim>\<open>x * y\<close>: an infinity times zero is NaN, otherwise the signs multiply.\<close>

fun js_mul :: "jsnum \<Rightarrow> jsnum \<Rightarrow> jsnum" where
  "js_mul (Fin a) (Fin b) = Fin (a * b)"
| "js_mul NaN y = NaN"
| "js_mul x NaN = NaN"
| "js_mul x y = signed_inf (js_sign x * js_sign y)"

text \<open>
  \<^verbatim>\<open>x / y\<close> never throws: a non-zero finite number over zero is an infinity, zero over
  zero and infinity over infinity are NaN, a finite number over an infinity is zero.
\<close>

fun js_div :: "jsnum \<Rightarrow> jsnum \<Rightarrow> jsnum" where
  "js_div (Fin a) (Fin b) = (if b = 0 then signed_inf (sgn a) else Fin (a / b))"
| "js_div NaN y = NaN"
| "js_div x NaN = NaN"
| "js_div (Fin a) y = Fin 0"
| "js_div x (Fin b) = signed_inf (js_sign x * (if b < 0 then - 1 else 1))"
| "js_div x y = NaN"

text \<open>The comparisons \<^verbatim>\<open>x < y\<close>, \<^verbatim>\<open>x > y\<close> and \<^verbatim>\<open>x >= y\<close>: false as soon as one side is NaN.\<close>

fun js_lt :: "jsnum \<Rightarrow> jsnum \<Rightarrow> bool" where
  "js_lt (Fin a) (Fin b) = (a < b)"
| "js_lt NaN y = False"
| "js_lt x NaN = False"
| "js_lt PosInf y = False"
| "js_lt x NegInf = False"
| "js_lt x y = True"

definition js_gt :: "jsnum \<Rightarrow> jsnum \<Rightarrow> bool" where
  "js_gt x y = js_lt y x"

fun js_ge :: "jsnum \<Rightarrow> jsnum \<Rightarrow> bool" where
  "js_ge (Fin a) (Fin b) = (b \<le> a)"
| "js_ge NaN y = False"
| "js_ge x NaN = False"
| "js_ge PosInf y = True"
| "js_ge x NegInf = True"
| "js_ge x y = False"

text \<open>\<^verbatim>\<open>Math.max\<close> and \<^verbatim>\<open>Math.min\<close> of two arguments: NaN if either is NaN.\<close>

fun Math_max :: "jsnum \<Rightarrow> jsnum \<Rightarrow> jsnum" where
  "Math_max (Fin a) (Fin b) = Fin (max a b)"
| "Math_max NaN y = NaN"
| "Math_max x NaN = NaN"
| "Math_max PosInf y = PosInf"
| "Math_max x PosInf = PosInf"
| "Math_max NegInf y = y"
| "Math_max x NegInf = x"

fun Math_min :: "jsnum \<Rightarrow> jsnum \<Rightarrow> jsnum" where
  "Math_min (Fin a) (Fin b) = Fin (min a b)"
| "Math_min NaN y = NaN"
| "Math_min x NaN = NaN"
| "Math_min NegInf y = NegInf"
| "Math_min x NegInf = NegInf"
| "Math_min PosInf y = y"
| "Math_min x PosInf = x"

fun Math_abs :: "jsnum \<Rightarrow> jsnum" where
  "Math_abs (Fin a) = Fin \<bar>a\<bar>"
| "Math_abs PosInf = PosInf"
| "Math_abs NegInf = PosInf"
| "Math_abs NaN = NaN"

text \<open>\<^verbatim>\<open>Math.sqrt\<close>: NaN on a negative argument.\<close>

fun Math_sqrt :: "jsnum \<Rightarrow> jsnum" where
  "Math_sqrt (Fin a) = (if a < 0 then NaN else Fin (sqrt a))"
| "Math_sqrt PosInf = PosInf"
| "Math_sqrt NegInf = NaN"
| "Math_sqrt NaN = NaN"

text \<open>
  \<^verbatim>\<open>Math.pow(base, exponent)\<close>, by the cases of the language standard: a NaN exponent
  gives NaN, a zero exponent gives 1, then a NaN base gives NaN; the infinite and zero
  bases and the infinite exponents follow; a negative finite base with an exponent that is
  not an integer gives NaN.
\<close>

definition odd_integer :: "real \<Rightarrow> bool" where
  "odd_integer b = (b \<in> \<int> \<and> odd \<lfloor>b\<rfloor>)"

fun Math_pow :: "jsnum \<Rightarrow> jsnum \<Rightarrow> jsnum" where
  "Math_pow x NaN = NaN"
| "Math_pow NaN (Fin b) = (if b = 0 then Fin 1 else NaN)"
| "Math_pow NaN y = NaN"
| "Math_pow PosInf (Fin b) = (if b = 0 then Fin 1 else if 0 < b then PosInf else Fin 0)"
| "Math_pow PosInf PosInf = PosInf"
| "Math_pow PosInf NegInf = Fin 0"
| "Math_pow NegInf (Fin b) =
     (if b = 0 then Fin 1
      else if 0 < b then (if odd_integer b then NegInf else PosInf)
      else Fin 0)"
| "Math_pow NegInf PosInf = PosInf"
| "Math_pow NegInf NegInf = Fin 0"
| "Math_pow (Fin a) PosInf =
     (if 1 < \<bar>a\<bar> then PosInf else if \<bar>a\<bar> = 1 then NaN else Fin 0)"
| "Math_pow (Fin a) NegInf =
     (if 1 < \<bar>a\<bar> then Fin 0 else if \<bar>a\<bar> = 1 then NaN else PosInf)"
| "Math_pow (Fin a) (Fin b) =
     (if b = 0 then Fin 1
      else if a = 0 then (if 0 < b then Fin 0 else PosInf)
      else if 0 < a then Fin (a powr b)
      else if b \<in> \<int> then Fin ((if odd \<lfloor>b\<rfloor> then - 1 else 1) * (\<bar>a\<bar> powr b))
      else NaN)"

section \<open>The water stress index\<close>

text \<open>
  \<^verbatim>\<open>calculateWaterStressIndex(precipitation, temperature, humidity, population)\<close>.
  Each constant of the function body is a definition of the same name, a function of the
  parameters it depends on.
\<close>

definition potentialEvapotranspiration :: "jsnum \<Rightarrow> jsnum" where
  "potentialEvapotranspiration temperature =
     js_mul
       (js_mul
          (js_mul (Fin 0.0023) (js_add temperature (Fin 17.8)))
          (Math_sqrt (Math_abs (js_sub (Fin 25) temperature))))
       (Fin 5)"

definition aridityIndex :: "jsnum \<Rightarrow> jsnum \<Rightarrow> jsnum" where
  "aridityIndex precipitation temperature =
     (if js_gt precipitation (Fin 0)
      then js_div precipitation (potentialEvapotranspiration temperature)
      else Fin 0)"

definition areaKm2 :: "jsnum \<Rightarrow> jsnum" where
  "areaKm2 population = Math_pow (js_mul population (Fin 10)) (Fin 0.5)"

definition waterAvailable :: "jsnum \<Rightarrow> jsnum \<Rightarrow> jsnum" where
  "waterAvailable precipitation population =
     js_mul (js_mul precipitation (areaKm2 population)) (Fin 1000)"

definition perCapitaWater :: "jsnum \<Rightarrow> jsnum \<Rightarrow> jsnum" where
  "perCapitaWater precipitation population =
     js_div (waterAvailable precipitation population) (js_mul population (Fin 1000000))"

definition tempStress :: "jsnum \<Rightarrow> jsnum" where
  "tempStress temperature =
     Math_max (Fin 0) (Math_min (Fin 100) (js_mul (js_sub temperature (Fin 15)) (Fin 3)))"

definition humidityFactor :: "jsnum \<Rightarrow> jsnum" where
  "humidityFactor humidity =
     Math_max (Fin 0) (Math_min (Fin 100) (js_mul (js_sub (Fin 60) humidity) (Fin 2)))"

text \<open>
  The two chains of \<^verbatim>\<open>if ... stressIndex += ...\<close>: each takes the running
  \<^verbatim>\<open>stressIndex\<close> and returns it updated; when no branch is taken it is unchanged.
\<close>

definition aridityComponent :: "jsnum \<Rightarrow> jsnum \<Rightarrow> jsnum" where
  "aridityComponent stressIndex ai =
     (if js_lt ai (Fin 0.05) then js_add stressIndex (Fin 40)
      else if js_lt ai (Fin 0.2) then js_add stressIndex (Fin 30)
      else if js_lt ai (Fin 0.5) then js_add stressIndex (Fin 20)
      else if js_lt ai (Fin 0.65) then js_add stressIndex (Fin 10)
      else stressIndex)"

definition perCapitaComponent :: "jsnum \<Rightarrow> jsnum \<Rightarrow> jsnum" where
  "perCapitaComponent stressIndex pc =
     (if js_lt pc (Fin 500) then js_add stressIndex (Fin 30)
      else if js_lt pc (Fin 1000) then js_add stressIndex (Fin 20)
      else if js_lt pc (Fin 1700) then js_add stressIndex (Fin 10)
      else stressIndex)"

definition temperatureComponent :: "jsnum \<Rightarrow> jsnum \<Rightarrow> jsnum" where
  "temperatureComponent stressIndex ts = js_add stressIndex (js_mul ts (Fin 0.2))"

definition humidityComponent :: "jsnum \<Rightarrow> jsnum \<Rightarrow> jsnum" where
  "humidityComponent stressIndex hf = js_add stressIndex (js_mul hf (Fin 0.1))"

text \<open>The value of \<^verbatim>\<open>stressIndex\<close> when the \<^verbatim>\<open>return\<close> is reached.\<close>

definition stressIndexSum :: "jsnum \<Rightarrow> jsnum \<Rightarrow> jsnum \<Rightarrow> jsnum \<Rightarrow> jsnum" where
  "stressIndexSum precipitation temperature humidity population =
     (let stressIndex = Fin 0;
          stressIndex = aridityComponent stressIndex (aridityIndex precipitation temperature);
          stressIndex = perCapitaComponent stressIndex (perCapitaWater precipitation population);
          stressIndex = temperatureComponent stressIndex (tempStress temperature);
          stressIndex = humidityComponent stressIndex (humidityFactor humidity)
      in stressIndex)"

definition calculateWaterStressIndex :: "jsnum \<Rightarrow> jsnum \<Rightarrow> jsnum \<Rightarrow> jsnum \<Rightarrow> jsnum" where
  "calculateWaterStressIndex precipitation temperature humidity population =
     Math_min (Fin 100)
       (Math_max (Fin 0) (stressIndexSum precipitation temperature humidity population))"

section \<open>The severity level\<close>

record severity =
  level :: string
  color :: string

definition getSeverityLevel :: "jsnum \<Rightarrow> severity" where
  "getSeverityLevel stressIndex =
     (if js_ge stressIndex (Fin 80) then \<lparr>level = ''critical'', color = ''#ff0040''\<rparr>
      else if js_ge stressIndex (Fin 60) then \<lparr>level = ''severe'', color = ''#ff6b35''\<rparr>
      else if js_ge stressIndex (Fin 40) then \<lparr>level = ''warning'', color = ''#ffa500''\<rparr>
      else if js_ge stressIndex (Fin 20) then \<lparr>level = ''moderate'', color = ''#ffdd00''\<rparr>
      else \<lparr>level = ''low'', color = ''#00d084''\<rparr>)"

section \<open>The function on finite arguments\<close>

text \<open>
  On real arguments every intermediate value of the function is determined: all are finite
  except the aridity ratio when the evapotranspiration is zero and the per-capita
  availability when the population is not positive.
\<close>

lemma Math_pow_half: "Math_pow (Fin a) (Fin 0.5) = (if a < 0 then NaN else Fin (sqrt a))"
proof -
  have "(1/2::real) \<notin> \<int>"
  proof
    assume "(1/2::real) \<in> \<int>"
    then obtain k :: int where "(1/2::real) = of_int k" by (auto elim: Ints_cases)
    then have "(1::real) = of_int (2 * k)" by simp
    then have "(1::int) = 2 * k" using of_int_eq_iff[of 1 "2*k", where 'a=real] by simp
    then show False by presburger
  qed
  then show ?thesis by (auto simp: powr_half_sqrt)
qed

lemma PET_Fin:
  "potentialEvapotranspiration (Fin t) = Fin (0.0023 * (t + 17.8) * sqrt \<bar>25 - t\<bar> * 5)"
  by (simp add: potentialEvapotranspiration_def js_sub_def)

lemma tempStress_Fin: "tempStress (Fin t) = Fin (max 0 (min 100 ((t - 15) * 3)))"
  by (simp add: tempStress_def js_sub_def)

lemma humidityFactor_Fin: "humidityFactor (Fin h) = Fin (max 0 (min 100 ((60 - h) * 2)))"
  by (simp add: humidityFactor_def js_sub_def)

lemma areaKm2_Fin: "areaKm2 (Fin n) = (if n < 0 then NaN else Fin (sqrt (n * 10)))"
  unfolding areaKm2_def js_mul.simps Math_pow_half by simp

lemma perCapitaWater_Fin:
  "0 < n \<Longrightarrow> perCapitaWater (Fin p) (Fin n) = Fin (p * sqrt (n * 10) * 1000 / (n * 1000000))"
  by (simp add: perCapitaWater_def waterAvailable_def areaKm2_Fin)

lemma perCapitaWater_nonpos:
  "n \<le> 0 \<Longrightarrow> perCapitaWater (Fin p) (Fin n) = NaN"
  by (cases "n = 0")
    (simp_all add: perCapitaWater_def waterAvailable_def areaKm2_Fin signed_inf_def)

lemma aridityComponent_Fin:
  "\<exists>c. aridityComponent (Fin s) ai = Fin (s + c) \<and> 0 \<le> c \<and> c \<le> 40"
  by (cases ai) (auto simp: aridityComponent_def)

lemma perCapitaComponent_Fin:
  "\<exists>c. perCapitaComponent (Fin s) pc = Fin (s + c) \<and> 0 \<le> c \<and> c \<le> 30"
  by (cases pc) (auto simp: perCapitaComponent_def)

lemma temperatureComponent_Fin:
  "\<exists>c. temperatureComponent (Fin s) (tempStress (Fin t)) = Fin (s + c) \<and> 0 \<le> c \<and> c \<le> 20"
  by (intro exI[of _ "max 0 (min 100 ((t - 15) * 3)) * 0.2"])
    (simp add: temperatureComponent_def tempStress_Fin)

lemma humidityComponent_Fin:
  "\<exists>c. humidityComponent (Fin s) (humidityFactor (Fin h)) = Fin (s + c) \<and> 0 \<le> c \<and> c \<le> 10"
  by (intro exI[of _ "max 0 (min 100 ((60 - h) * 2)) * 0.1"])
    (simp add: humidityComponent_def humidityFactor_Fin)

lemma stressIndexSum_bounds:
  "\<exists>s. stressIndexSum (Fin p) (Fin t) (Fin h) n = Fin s \<and> 0 \<le> s \<and> s \<le> 100"
proof -
  obtain a where a: "aridityComponent (Fin 0) (aridityIndex (Fin p) (Fin t)) = Fin (0 + a)"
    "0 \<le> a" "a \<le> 40"
    using aridityComponent_Fin by blast
  obtain c where c: "perCapitaComponent (Fin (0 + a)) (perCapitaWater (Fin p) n) = Fin (0 + a + c)"
    "0 \<le> c" "c \<le> 30"
    using perCapitaComponent_Fin by blast
  obtain d where d: "temperatureComponent (Fin (0 + a + c)) (tempStress (Fin t)) = Fin (0 + a + c + d)"
    "0 \<le> d" "d \<le> 20"
    using temperatureComponent_Fin by blast
  obtain e where e: "humidityComponent (Fin (0 + a + c + d)) (humidityFactor (Fin h)) = Fin (0 + a + c + d + e)"
    "0 \<le> e" "e \<le> 10"
    using humidityComponent_Fin by blast
  have "stressIndexSum (Fin p) (Fin t) (Fin h) n = Fin (0 + a + c + d + e)"
    by (simp only: stressIndexSum_def Let_def a c d e)
  moreover have "0 \<le> 0 + a + c + d + e" "0 + a + c + d + e \<le> 100"
    using a c d e by linarith+
  ultimately show ?thesis by blast
qed

section \<open>The claims\<close>

text \<open>
  C2. For every precipitation \<open>\<ge> 0\<close>, every real temperature, every humidity in
  \<open>[0, 100]\<close> and every population \<open>> 0\<close>, the index returned by
  \<^verbatim>\<open>calculateWaterStressIndex\<close> is a finite number in \<open>[0, 100]\<close>.
\<close>

theorem calculateWaterStressIndex_range:
  assumes "0 \<le> p" and "0 \<le> h" and "h \<le> 100" and "0 < n"
  shows "\<exists>r. calculateWaterStressIndex (Fin p) (Fin t) (Fin h) (Fin n) = Fin r
            \<and> 0 \<le> r \<and> r \<le> 100"
proof -
  obtain s where "stressIndexSum (Fin p) (Fin t) (Fin h) (Fin n) = Fin s"
    using stressIndexSum_bounds by blast
  then have "calculateWaterStressIndex (Fin p) (Fin t) (Fin h) (Fin n) = Fin (min 100 (max 0 s))"
    by (simp add: calculateWaterStressIndex_def)
  then show ?thesis by simp
qed

theorem calculateWaterStressIndex_range_witness:
  "(0::real) \<le> 0 \<and> (0::real) \<le> 10 \<and> (10::real) \<le> 100 \<and> (0::real) < 10
   \<and> (\<exists>r. calculateWaterStressIndex (Fin 0) (Fin 40) (Fin 10) (Fin 10) = Fin r
            \<and> 0 \<le> r \<and> r \<le> 100)"
  using calculateWaterStressIndex_range [of 0 10 10 40] by simp

text \<open>
  C3. \<^verbatim>\<open>getSeverityLevel\<close> partitions the indices: every real index has exactly one of the
  five levels, critical from 80, severe from 60 and below 80, warning from 40 and below 60,
  moderate from 20 and below 40, low below 20; the five labels are pairwise different, and
  each boundary value 80, 60, 40, 20 has the higher level.
\<close>

theorem getSeverityLevel_partition:
  "(level (getSeverityLevel (Fin x)) = ''critical'' \<longleftrightarrow> 80 \<le> x)
   \<and> (level (getSeverityLevel (Fin x)) = ''severe'' \<longleftrightarrow> 60 \<le> x \<and> x < 80)
   \<and> (level (getSeverityLevel (Fin x)) = ''warning'' \<longleftrightarrow> 40 \<le> x \<and> x < 60)
   \<and> (level (getSeverityLevel (Fin x)) = ''moderate'' \<longleftrightarrow> 20 \<le> x \<and> x < 40)
   \<and> (level (getSeverityLevel (Fin x)) = ''low'' \<longleftrightarrow> x < 20)
   \<and> level (getSeverityLevel (Fin x)) \<in> {''critical'', ''severe'', ''warning'', ''moderate'', ''low''}
   \<and> distinct [''critical'', ''severe'', ''warning'', ''moderate'', ''low'']
   \<and> level (getSeverityLevel (Fin 80)) = ''critical''
   \<and> level (getSeverityLevel (Fin 60)) = ''severe''
   \<and> level (getSeverityLevel (Fin 40)) = ''warning''
   \<and> level (getSeverityLevel (Fin 20)) = ''moderate''"
  by (simp add: getSeverityLevel_def)

theorem getSeverityLevel_partition_witness:
  "level (getSeverityLevel (Fin 79)) = ''severe''
   \<and> level (getSeverityLevel (Fin 79)) \<noteq> ''critical''
   \<and> level (getSeverityLevel (Fin 79)) \<noteq> ''warning''
   \<and> level (getSeverityLevel (Fin 79)) \<noteq> ''moderate''
   \<and> level (getSeverityLevel (Fin 79)) \<noteq> ''low''"
  using getSeverityLevel_partition [of 79] by simp

text \<open>
  C4. At temperature exactly 25 the potential evapotranspiration is 0. For every
  precipitation \<open>> 0\<close> the division then yields the positive infinity, no threshold of the
  aridity chain is met, the aridity contribution is 0, and the returned index is a finite
  number in \<open>[0, 100]\<close>, for every real humidity and population.
\<close>

theorem zero_PET_finite_index:
  assumes "0 < p"
  shows "potentialEvapotranspiration (Fin 25) = Fin 0
         \<and> aridityIndex (Fin p) (Fin 25) = PosInf
         \<and> aridityComponent (Fin 0) (aridityIndex (Fin p) (Fin 25)) = Fin 0
         \<and> (\<exists>r. calculateWaterStressIndex (Fin p) (Fin 25) (Fin h) (Fin n) = Fin r
                  \<and> 0 \<le> r \<and> r \<le> 100)"
proof -
  have pet: "potentialEvapotranspiration (Fin 25) = Fin 0"
    by (simp add: PET_Fin)
  have ai: "aridityIndex (Fin p) (Fin 25) = PosInf"
    using assms by (simp add: aridityIndex_def js_gt_def pet signed_inf_def)
  have comp: "aridityComponent (Fin 0) (aridityIndex (Fin p) (Fin 25)) = Fin 0"
    by (simp add: ai aridityComponent_def)
  obtain s where "stressIndexSum (Fin p) (Fin 25) (Fin h) (Fin n) = Fin s"
    using stressIndexSum_bounds by blast
  then have "calculateWaterStressIndex (Fin p) (Fin 25) (Fin h) (Fin n) = Fin (min 100 (max 0 s))"
    by (simp add: calculateWaterStressIndex_def)
  then have "\<exists>r. calculateWaterStressIndex (Fin p) (Fin 25) (Fin h) (Fin n) = Fin r
                  \<and> 0 \<le> r \<and> r \<le> 100"
    by simp
  with pet ai comp show ?thesis by blast
qed

theorem zero_PET_finite_index_witness:
  "(0::real) < 3
   \<and> aridityIndex (Fin 3) (Fin 25) = PosInf
   \<and> aridityComponent (Fin 0) (aridityIndex (Fin 3) (Fin 25)) = Fin 0
   \<and> (\<exists>r. calculateWaterStressIndex (Fin 3) (Fin 25) (Fin 50) (Fin 5) = Fin r
            \<and> 0 \<le> r \<and> r \<le> 100)"
  using zero_PET_finite_index [of 3 50 5] by (simp add: aridityComponent_def)

text \<open>
  C5. For every precipitation \<open>\<le> 0\<close> and every real temperature, humidity and population,
  the aridity ratio is 0 and the aridity chain adds exactly 40 to the initial index 0; the
  remaining three components are then added to 40.
\<close>

theorem no_precipitation_max_aridity:
  assumes "p \<le> 0"
  shows "aridityIndex (Fin p) (Fin t) = Fin 0
         \<and> aridityComponent (Fin 0) (aridityIndex (Fin p) (Fin t)) = Fin 40
         \<and> stressIndexSum (Fin p) (Fin t) (Fin h) (Fin n)
             = humidityComponent
                 (temperatureComponent
                    (perCapitaComponent (Fin 40) (perCapitaWater (Fin p) (Fin n)))
                    (tempStress (Fin t)))
                 (humidityFactor (Fin h))"
proof -
  have ai: "aridityIndex (Fin p) (Fin t) = Fin 0"
    using assms by (simp add: aridityIndex_def js_gt_def)
  have comp: "aridityComponent (Fin 0) (aridityIndex (Fin p) (Fin t)) = Fin 40"
    by (simp add: ai aridityComponent_def)
  have "stressIndexSum (Fin p) (Fin t) (Fin h) (Fin n)
          = humidityComponent
              (temperatureComponent
                 (perCapitaComponent (Fin 40) (perCapitaWater (Fin p) (Fin n)))
                 (tempStress (Fin t)))
              (humidityFactor (Fin h))"
    by (simp only: stressIndexSum_def Let_def comp)
  with ai comp show ?thesis by blast
qed

theorem no_precipitation_max_aridity_witness:
  "(0::real) \<le> 0
   \<and> aridityIndex (Fin 0) (Fin 40) = Fin 0
   \<and> aridityComponent (Fin 0) (aridityIndex (Fin 0) (Fin 40)) = Fin 40"
  using no_precipitation_max_aridity [of 0 40 10 10] by (simp add: aridityComponent_def)

text \<open>
  C6. For precipitation 0, temperature 40, humidity 10 and population 10 the function
  returns exactly 95, built as aridity 40, per-capita 30, temperature 15 and humidity 10,
  and the severity level of that index is critical.
\<close>

theorem scenario_1_critical:
  "calculateWaterStressIndex (Fin 0) (Fin 40) (Fin 10) (Fin 10) = Fin 95
   \<and> aridityComponent (Fin 0) (aridityIndex (Fin 0) (Fin 40)) = Fin 40
   \<and> perCapitaComponent (Fin 40) (perCapitaWater (Fin 0) (Fin 10)) = Fin 70
   \<and> temperatureComponent (Fin 70) (tempStress (Fin 40)) = Fin 85
   \<and> humidityComponent (Fin 85) (humidityFactor (Fin 10)) = Fin 95
   \<and> level (getSeverityLevel (calculateWaterStressIndex (Fin 0) (Fin 40) (Fin 10) (Fin 10)))
       = ''critical''"
proof -
  have a: "aridityComponent (Fin 0) (aridityIndex (Fin 0) (Fin 40)) = Fin 40"
    by (simp add: aridityIndex_def js_gt_def aridityComponent_def)
  have c: "perCapitaComponent (Fin 40) (perCapitaWater (Fin 0) (Fin 10)) = Fin 70"
    by (simp add: perCapitaWater_Fin perCapitaComponent_def)
  have d: "temperatureComponent (Fin 70) (tempStress (Fin 40)) = Fin 85"
    by (simp add: temperatureComponent_def tempStress_Fin)
  have e: "humidityComponent (Fin 85) (humidityFactor (Fin 10)) = Fin 95"
    by (simp add: humidityComponent_def humidityFactor_Fin)
  have "stressIndexSum (Fin 0) (Fin 40) (Fin 10) (Fin 10) = Fin 95"
    by (simp only: stressIndexSum_def Let_def a c d e)
  then have idx: "calculateWaterStressIndex (Fin 0) (Fin 40) (Fin 10) (Fin 10) = Fin 95"
    by (simp add: calculateWaterStressIndex_def)
  then have "level (getSeverityLevel (calculateWaterStressIndex (Fin 0) (Fin 40) (Fin 10) (Fin 10)))
       = ''critical''"
    by (simp add: getSeverityLevel_def)
  with idx a c d e show ?thesis by blast
qed

text \<open>
  C7. For precipitation 50, temperature 20, humidity 70 and population 5 the returned
  index is 33, strictly below 40, and its severity level is moderate.
\<close>

theorem scenario_2_below_warning:
  "calculateWaterStressIndex (Fin 50) (Fin 20) (Fin 70) (Fin 5) = Fin 33
   \<and> js_lt (calculateWaterStressIndex (Fin 50) (Fin 20) (Fin 70) (Fin 5)) (Fin 40)
   \<and> level (getSeverityLevel (calculateWaterStressIndex (Fin 50) (Fin 20) (Fin 70) (Fin 5)))
       = ''moderate''"
proof -
  have sqrt5: "0 < sqrt (5::real)" "sqrt (5::real) < 3"
    using real_sqrt_less_iff [of 5 9] by simp_all
  have sqrt50: "sqrt (50::real) < 8"
    using real_sqrt_less_iff [of 50 64] by simp
  define e :: real where "e = 0.0023 * 37.8 * sqrt 5 * 5"
  define r :: real where "r = 50 / e"
  have pet: "potentialEvapotranspiration (Fin 20) = Fin e"
    by (simp add: PET_Fin e_def)
  have pos: "0 < e"
    using sqrt5 by (simp add: e_def)
  have "0.65 * e \<le> 50"
    using sqrt5 by (simp add: e_def)
  then have ratio: "0.65 \<le> r"
    unfolding r_def using pos by (simp only: pos_le_divide_eq)
  have ai: "aridityIndex (Fin 50) (Fin 20) = Fin r"
    using pos by (simp add: aridityIndex_def js_gt_def pet r_def)
  have a: "aridityComponent (Fin 0) (aridityIndex (Fin 50) (Fin 20)) = Fin 0"
    using ratio by (simp add: ai aridityComponent_def)
  have pc: "perCapitaWater (Fin 50) (Fin 5) = Fin (sqrt 50 / 100)"
    by (simp add: perCapitaWater_Fin)
  have c: "perCapitaComponent (Fin 0) (perCapitaWater (Fin 50) (Fin 5)) = Fin 30"
    unfolding pc perCapitaComponent_def js_lt.simps using sqrt50 by simp
  have d: "temperatureComponent (Fin 30) (tempStress (Fin 20)) = Fin 33"
    by (simp add: temperatureComponent_def tempStress_Fin)
  have e: "humidityComponent (Fin 33) (humidityFactor (Fin 70)) = Fin 33"
    by (simp add: humidityComponent_def humidityFactor_Fin)
  have "stressIndexSum (Fin 50) (Fin 20) (Fin 70) (Fin 5) = Fin 33"
    by (simp only: stressIndexSum_def Let_def a c d e)
  then have idx: "calculateWaterStressIndex (Fin 50) (Fin 20) (Fin 70) (Fin 5) = Fin 33"
    by (simp add: calculateWaterStressIndex_def)
  then show ?thesis
    by (simp add: getSeverityLevel_def)
qed

text \<open>
  C8. The temperature contribution \<^verbatim>\<open>tempStress * 0.2\<close> is monotonically non-decreasing in
  the temperature: for \<open>T1 \<le> T2\<close> the contribution at \<open>T1\<close> is at most the one at \<open>T2\<close>;
  it lies between 0 and 20 and is 20 at both temperatures once \<^verbatim>\<open>tempStress\<close> has
  reached 100 at the lower one. It is what the temperature step adds to the running index.
\<close>

theorem temperature_contribution_monotone:
  assumes "T1 \<le> T2"
  shows "\<exists>c1 c2. js_mul (tempStress (Fin T1)) (Fin 0.2) = Fin c1
                 \<and> js_mul (tempStress (Fin T2)) (Fin 0.2) = Fin c2
                 \<and> 0 \<le> c1 \<and> c1 \<le> c2 \<and> c2 \<le> 20
                 \<and> (tempStress (Fin T1) = Fin 100 \<longrightarrow> c1 = 20 \<and> c2 = 20)
                 \<and> temperatureComponent (Fin s) (tempStress (Fin T1)) = Fin (s + c1)
                 \<and> temperatureComponent (Fin s) (tempStress (Fin T2)) = Fin (s + c2)"
proof -
  define c1 where "c1 = max 0 (min 100 ((T1 - 15) * 3)) * 0.2"
  define c2 where "c2 = max 0 (min 100 ((T2 - 15) * 3)) * 0.2"
  have m1: "js_mul (tempStress (Fin T1)) (Fin 0.2) = Fin c1"
    by (simp add: tempStress_Fin c1_def)
  have m2: "js_mul (tempStress (Fin T2)) (Fin 0.2) = Fin c2"
    by (simp add: tempStress_Fin c2_def)
  have b: "0 \<le> c1" "c1 \<le> c2" "c2 \<le> 20"
    using assms unfolding c1_def c2_def by (simp_all add: max_def min_def)
  have sat: "tempStress (Fin T1) = Fin 100 \<longrightarrow> c1 = 20 \<and> c2 = 20"
  proof
    assume "tempStress (Fin T1) = Fin 100"
    then have "c1 = 20" by (simp add: tempStress_Fin c1_def)
    with b show "c1 = 20 \<and> c2 = 20" by simp
  qed
  have t1: "temperatureComponent (Fin s) (tempStress (Fin T1)) = Fin (s + c1)"
    by (simp only: temperatureComponent_def m1 js_add.simps)
  have t2: "temperatureComponent (Fin s) (tempStress (Fin T2)) = Fin (s + c2)"
    by (simp only: temperatureComponent_def m2 js_add.simps)
  from m1 m2 b sat t1 t2 show ?thesis by blast
qed

theorem temperature_contribution_monotone_witness:
  "(50::real) \<le> 60
   \<and> tempStress (Fin 50) = Fin 100
   \<and> (\<exists>c1 c2. js_mul (tempStress (Fin 50)) (Fin 0.2) = Fin c1
              \<and> js_mul (tempStress (Fin 60)) (Fin 0.2) = Fin c2
              \<and> c1 \<le> c2 \<and> c1 = 20 \<and> c2 = 20)"
proof -
  have le: "(50::real) \<le> 60"
    by simp
  have sat: "tempStress (Fin 50) = Fin 100"
    by (simp add: tempStress_Fin)
  from temperature_contribution_monotone [OF le, of 0] sat le show ?thesis
    by blast
qed

text \<open>
  C9. For all real precipitation, temperature and humidity and every population \<open>> 0\<close>
  the sum of the four contributions already lies in \<open>[0, 100]\<close>: each step adds a value
  between 0 and its weight (40, 30, 20, 10). So the final \<^verbatim>\<open>Math.min(100, Math.max(0, _))\<close>
  changes nothing: the function returns the sum itself.
\<close>

theorem final_clamp_is_identity:
  assumes "0 < n"
  shows "calculateWaterStressIndex (Fin p) (Fin t) (Fin h) (Fin n)
           = stressIndexSum (Fin p) (Fin t) (Fin h) (Fin n)
         \<and> (\<exists>s. stressIndexSum (Fin p) (Fin t) (Fin h) (Fin n) = Fin s \<and> 0 \<le> s \<and> s \<le> 100)
         \<and> (\<exists>c. aridityComponent (Fin s0) (aridityIndex (Fin p) (Fin t)) = Fin (s0 + c)
                 \<and> 0 \<le> c \<and> c \<le> 40)
         \<and> (\<exists>c. perCapitaComponent (Fin s0) (perCapitaWater (Fin p) (Fin n)) = Fin (s0 + c)
                 \<and> 0 \<le> c \<and> c \<le> 30)
         \<and> (\<exists>c. temperatureComponent (Fin s0) (tempStress (Fin t)) = Fin (s0 + c)
                 \<and> 0 \<le> c \<and> c \<le> 20)
         \<and> (\<exists>c. humidityComponent (Fin s0) (humidityFactor (Fin h)) = Fin (s0 + c)
                 \<and> 0 \<le> c \<and> c \<le> 10)"
proof -
  obtain s where s: "stressIndexSum (Fin p) (Fin t) (Fin h) (Fin n) = Fin s" "0 \<le> s" "s \<le> 100"
    using stressIndexSum_bounds by blast
  then have "calculateWaterStressIndex (Fin p) (Fin t) (Fin h) (Fin n)
               = stressIndexSum (Fin p) (Fin t) (Fin h) (Fin n)"
    by (simp add: calculateWaterStressIndex_def)
  moreover have "\<exists>s. stressIndexSum (Fin p) (Fin t) (Fin h) (Fin n) = Fin s \<and> 0 \<le> s \<and> s \<le> 100"
    using s by blast
  ultimately show ?thesis
    using aridityComponent_Fin perCapitaComponent_Fin temperatureComponent_Fin
      humidityComponent_Fin
    by blast
qed

theorem final_clamp_is_identity_witness:
  "(0::real) < 5
   \<and> calculateWaterStressIndex (Fin 50) (Fin 20) (Fin 70) (Fin 5)
       = stressIndexSum (Fin 50) (Fin 20) (Fin 70) (Fin 5)"
  using final_clamp_is_identity [of 5 50 20 70 0] by simp

end
